theory Spec2Isabelle
  imports Main "HOL-Library.Word"
begin

section \<open>Errors\<close>

text \<open>
  The hard failure paths of the code are values of one type: a failed \<open>ASSERT_ND\<close> (a
  debug build aborts in \<open>assert\<close>), an exhausted per-thread block pool and a release
  with a handle that is not held.
\<close>

datatype error = AssertionFailed | PoolExhausted | ProtocolMisuse

section \<open>SequentialPartitioner (sequential\_partitioner\_impl.hpp)\<close>

text \<open>
  The class has no data member; its constructor ignores the parent partitioner.
  \<open>is_partitionable\<close> and \<open>get_required_sort_buffer_size\<close> are the two member
  functions defined inline in the header; \<open>log_count\<close> is a \<open>uint32_t\<close>, the result
  a \<open>uint64_t\<close>.
\<close>

datatype SequentialPartitioner = SequentialPartitioner

definition make_SequentialPartitioner :: "'parent \<Rightarrow> SequentialPartitioner" where
  "make_SequentialPartitioner parent = SequentialPartitioner"

definition is_partitionable :: "SequentialPartitioner \<Rightarrow> bool" where
  "is_partitionable p = True"

definition get_required_sort_buffer_size :: "SequentialPartitioner \<Rightarrow> 32 word \<Rightarrow> 64 word" where
  "get_required_sort_buffer_size p log_count = 0"

section \<open>EngineMemory::get\_node\_memory\_count (engine\_memory.hpp)\<close>

text \<open>
  \<open>node_memories_\<close> is a \<open>std::vector\<close> of pointers; \<open>size()\<close> is a \<open>size_t\<close>,
  64 bits wide. \<open>thread_id.hpp\<close> is not part of the sources at hand, so the two names
  it declares are parameters: \<open>ThreadGroupId\<close> is an unsigned integer type of some width
  \<open>'w\<close>, and \<open>MAX_THREAD_GROUP_ID\<close> is a constant of that type.

  \<open>ASSERT_ND(x)\<close> is \<open>assert(x)\<close> in a debug build and evaluates nothing when
  \<open>NDEBUG\<close> is defined; the flag \<open>ndebug\<close> selects the build. The comparison
  \<open>size() <= MAX_THREAD_GROUP_ID\<close> converts the constant to \<open>size_t\<close>, which keeps
  its value, so it compares the two unsigned values. The \<open>static_cast\<close> to
  \<open>ThreadGroupId\<close> keeps the low \<open>'w\<close> bits.
\<close>

type_synonym pointer = "64 word"

record EngineMemory =
  engine :: pointer
  node_memories :: "pointer list"

definition vector_size :: "'a list \<Rightarrow> 64 word" where
  "vector_size xs = of_nat (length xs)"

definition get_node_memory_count ::
    "bool \<Rightarrow> 'w::len word \<Rightarrow> EngineMemory \<Rightarrow> error + 'w word" where
  "get_node_memory_count ndebug MAX_THREAD_GROUP_ID m =
     (if \<not> ndebug \<and> \<not> (unat (vector_size (node_memories m)) \<le> unat MAX_THREAD_GROUP_ID)
      then Inl AssertionFailed
      else Inr (ucast (vector_size (node_memories m))))"

section \<open>The record lock exercised by test\_xct\_id\_try\_rw\_lock.cpp\<close>

text \<open>
  The test drives \<open>RwLockableXctId\<close> and the \<open>mcs_*\<close> lock functions of
  \<open>thread::Thread\<close>. Their implementation (\<open>xct_id.hpp\<close>, \<open>thread.hpp\<close> and
  the files behind them) is not part of the sources at hand; only the test is. The
  definitions of this section are therefore written from the specification, and each says
  so.

  A call of a lock function is one atomic step of the model: the state before the call and
  the state after it, with nothing of another thread in between. The state holds every
  record and every worker thread, so that calls on different records share the block pools
  of their threads.
\<close>

type_synonym ThreadId = nat
type_synonym McsBlockIndex = nat
type_synonym block_ref = "ThreadId \<times> McsBlockIndex"

text \<open>
  Modelled from the spec: the mode of a lock queue node, \<open>mode \<in> {reader, writer}\<close>
  (the node type is missing from the sources).
\<close>

datatype lock_mode = Reader | Writer

text \<open>
  Modelled from the spec: LockQueueNode, the block behind a handle, with its
  \<open>granted\<close> flag, its \<open>finalized\<close> flag and its mode. The spec's \<open>successor\<close>
  reference is not a field here: the chain of successors of a lock is kept as one list in
  the lock (see \<open>ReaderWriterLock\<close>). \<open>is_granted\<close> and \<open>is_finalized\<close> are the
  two accessors of a handle that the spec lists and the test calls on a block.
\<close>

record LockQueueNode =
  granted :: bool
  finalized :: bool
  mode :: lock_mode

definition is_granted :: "LockQueueNode \<Rightarrow> bool" where
  "is_granted b = granted b"

definition is_finalized :: "LockQueueNode \<Rightarrow> bool" where
  "is_finalized b = finalized b"

text \<open>
  Modelled from the spec: BlockPool, the fixed array of node slots of one worker thread.
  A free slot is \<open>None\<close>. Slot 0 is the sentinel "no block" and is never handed out:
  \<open>acquire_slot\<close> claims the first free slot from index 1 on and finds none when the
  pool is exhausted; \<open>release_slot\<close> returns a slot.
\<close>

type_synonym BlockPool = "LockQueueNode option list"

definition acquire_slot :: "BlockPool \<Rightarrow> McsBlockIndex option" where
  "acquire_slot p = List.find (\<lambda>i. p ! i = None) [1..<length p]"

definition release_slot :: "McsBlockIndex \<Rightarrow> BlockPool \<Rightarrow> BlockPool" where
  "release_slot i p = p[i := None]"

text \<open>
  Modelled from the spec: ReaderWriterLock, the queue anchor of one record. \<open>queue\<close> is
  the chain of the requests on the lock, oldest first, each a pair of owning thread and
  slot index; it stands for the spec's successor references, and the spec's \<open>tail\<close> is
  its last element, "free" (\<open>None\<close>) when there is no request. \<open>readers_count\<close> is
  the active-reader count that \<open>release_reader\<close> decrements.
\<close>

record ReaderWriterLock =
  queue :: "block_ref list"
  readers_count :: nat

definition tail :: "ReaderWriterLock \<Rightarrow> block_ref option" where
  "tail l = (if queue l = [] then None else Some (last (queue l)))"

text \<open>
  Modelled from the spec: VersionedRecordId (\<open>XctId\<close> in the test), with the 32-bit
  epoch, the ordinal and the status flags valid, deleted and moved. No lock function reads
  or writes it; it is part of the record state that a release has to leave as it was.
\<close>

record VersionedRecordId =
  epoch :: "32 word"
  ordinal :: "32 word"
  valid_flag :: bool
  deleted_flag :: bool
  moved_flag :: bool

text \<open>
  Modelled from the spec: the lock-bearing record handle \<open>RwLockableXctId\<close>, one
  ReaderWriterLock (member \<open>lock_\<close>, handed out by \<open>get_key_lock()\<close>) and one
  VersionedRecordId (member \<open>xct_id_\<close>).
\<close>

record RwLockableXctId =
  key_lock :: ReaderWriterLock
  xct_id :: VersionedRecordId

text \<open>
  Modelled from the spec: \<open>RwLockableXctId::reset()\<close>, which returns the
  VersionedRecordId and the lock to the pristine, unlocked, valid-cleared state, whatever
  they held before.
\<close>

definition reset :: "RwLockableXctId \<Rightarrow> RwLockableXctId" where
  "reset k = k\<lparr>key_lock := \<lparr>queue = [], readers_count = 0\<rparr>,
              xct_id := \<lparr>epoch = 0, ordinal = 0, valid_flag = False,
                         deleted_flag = False, moved_flag = False\<rparr>\<rparr>"

text \<open>
  Modelled from the spec: what the lock functions read and write, the records (the array
  \<open>keys\<close> of the test, by index) and the block pool of every worker thread. A handle is
  resolved through the pool of its owning thread, a release grants blocks of other
  threads, and one thread holds its locks on all records in the one pool. \<open>initial N ks\<close>
  is the state after thread start-up and the test's \<open>init()\<close>: pools of \<open>N\<close> free
  slots and every record reset, whatever \<open>ks\<close> it held before.
\<close>

record LockSystem =
  pools :: "ThreadId \<Rightarrow> BlockPool"
  keys :: "nat \<Rightarrow> RwLockableXctId"

definition initial :: "nat \<Rightarrow> (nat \<Rightarrow> RwLockableXctId) \<Rightarrow> LockSystem" where
  "initial N ks = \<lparr>pools = (\<lambda>t. replicate N None), keys = (\<lambda>j. reset (ks j))\<rparr>"

text \<open>
  Modelled from the spec: resolving a handle, a pair of thread and slot index, through the
  pool of its owning thread, to read, to write or to free the block (the pool accessors,
  such as \<open>get_mcs_rw_simple_blocks\<close> of the test, are missing from the sources). A slot
  index beyond the pool holds no block. \<open>lock_queue\<close>, \<open>nreaders\<close> and
  \<open>set_lock\<close> read and write the lock of record \<open>j\<close>.
\<close>

definition get_block :: "LockSystem \<Rightarrow> block_ref \<Rightarrow> LockQueueNode option" where
  "get_block s r =
     (if snd r < length (pools s (fst r)) then pools s (fst r) ! snd r else None)"

definition put_block :: "block_ref \<Rightarrow> LockQueueNode option \<Rightarrow> LockSystem \<Rightarrow> LockSystem" where
  "put_block r v s = s\<lparr>pools := (pools s)(fst r := (pools s (fst r))[snd r := v])\<rparr>"

definition free_block :: "block_ref \<Rightarrow> LockSystem \<Rightarrow> LockSystem" where
  "free_block r s = s\<lparr>pools := (pools s)(fst r := release_slot (snd r) (pools s (fst r)))\<rparr>"

definition lock_queue :: "LockSystem \<Rightarrow> nat \<Rightarrow> block_ref list" where
  "lock_queue s j = queue (key_lock (keys s j))"

definition nreaders :: "LockSystem \<Rightarrow> nat \<Rightarrow> nat" where
  "nreaders s j = readers_count (key_lock (keys s j))"

definition set_lock :: "nat \<Rightarrow> block_ref list \<Rightarrow> nat \<Rightarrow> LockSystem \<Rightarrow> LockSystem" where
  "set_lock j q n s =
     s\<lparr>keys := (keys s)(j := (keys s j)\<lparr>key_lock := \<lparr>queue = q, readers_count = n\<rparr>\<rparr>)\<rparr>"

text \<open>
  Modelled from the spec: a request holds in a mode when its block is in use, granted and
  of that mode (the spec's "granted reader" and "granted writer"); the other two tests
  read the mode of a block in use.
\<close>

definition holds :: "LockSystem \<Rightarrow> block_ref \<Rightarrow> lock_mode \<Rightarrow> bool" where
  "holds s r m = (case get_block s r of None \<Rightarrow> False | Some b \<Rightarrow> granted b \<and> mode b = m)"

definition is_writer_block :: "LockSystem \<Rightarrow> block_ref \<Rightarrow> bool" where
  "is_writer_block s r = (case get_block s r of None \<Rightarrow> False | Some b \<Rightarrow> mode b = Writer)"

definition is_reader_block :: "LockSystem \<Rightarrow> block_ref \<Rightarrow> bool" where
  "is_reader_block s r = (case get_block s r of None \<Rightarrow> False | Some b \<Rightarrow> mode b = Reader)"

text \<open>
  Modelled from the spec: appending a node to the queue of record \<open>j\<close> (the exchange of
  \<open>tail\<close>). The block is written into the caller's slot, and a reader that is granted
  at once counts as an active reader.
\<close>

definition enqueue :: "nat \<Rightarrow> block_ref \<Rightarrow> LockQueueNode \<Rightarrow> LockSystem \<Rightarrow> LockSystem" where
  "enqueue j r b s =
     set_lock j (lock_queue s j @ [r])
       (if granted b \<and> mode b = Reader then nreaders s j + 1 else nreaders s j)
       (put_block r (Some b) s)"

text \<open>
  Modelled from the spec: \<open>try_acquire_writer\<close> (\<open>mcs_try_acquire_writer_lock\<close> in
  the test, called by thread \<open>t\<close> on \<open>keys[j].get_key_lock()\<close>). It succeeds only if
  the lock is observed free, and then returns a handle whose block is granted and
  finalized; otherwise it returns the sentinel handle 0 at once and enqueues nothing. An
  exhausted pool is the hard failure.
\<close>

definition mcs_try_acquire_writer_lock ::
    "ThreadId \<Rightarrow> nat \<Rightarrow> LockSystem \<Rightarrow> error + (McsBlockIndex \<times> LockSystem)" where
  "mcs_try_acquire_writer_lock t j s =
     (if tail (key_lock (keys s j)) \<noteq> None then Inr (0, s)
      else case acquire_slot (pools s t) of
             None \<Rightarrow> Inl PoolExhausted
           | Some i \<Rightarrow>
               Inr (i, enqueue j (t, i) \<lparr>granted = True, finalized = True, mode = Writer\<rparr> s))"

text \<open>
  Modelled from the spec: \<open>try_acquire_reader\<close> (\<open>mcs_try_acquire_reader_lock\<close> in
  the test). It succeeds when the lock is free or held by readers only, and fails, with the
  sentinel handle 0 and nothing enqueued, when a writer holds the lock or is queued.
\<close>

definition mcs_try_acquire_reader_lock ::
    "ThreadId \<Rightarrow> nat \<Rightarrow> LockSystem \<Rightarrow> error + (McsBlockIndex \<times> LockSystem)" where
  "mcs_try_acquire_reader_lock t j s =
     (if list_ex (is_writer_block s) (lock_queue s j) then Inr (0, s)
      else case acquire_slot (pools s t) of
             None \<Rightarrow> Inl PoolExhausted
           | Some i \<Rightarrow>
               Inr (i, enqueue j (t, i) \<lparr>granted = True, finalized = True, mode = Reader\<rparr> s))"

text \<open>
  Modelled from the spec: the first step of the blocking \<open>acquire_writer\<close> and
  \<open>acquire_reader\<close>, which appends the caller's node; the node is granted at once if
  there was no predecessor, and otherwise waits for a release to grant it (the caller spins
  on its own block, which changes no state).
\<close>

definition mcs_acquire_enqueue ::
    "lock_mode \<Rightarrow> ThreadId \<Rightarrow> nat \<Rightarrow> LockSystem \<Rightarrow> error + (McsBlockIndex \<times> LockSystem)" where
  "mcs_acquire_enqueue m t j s =
     (case acquire_slot (pools s t) of
        None \<Rightarrow> Inl PoolExhausted
      | Some i \<Rightarrow>
          (let g = (tail (key_lock (keys s j)) = None)
           in Inr (i, enqueue j (t, i) \<lparr>granted = g, finalized = g, mode = m\<rparr> s)))"

text \<open>
  Modelled from the spec: the hand-off of a release. With no holder left, the next queued
  node is granted; if it heads a run of queued readers, the whole run is granted with it,
  and each of them counts as an active reader. With an empty queue the lock stays free.
\<close>

definition grant :: "LockQueueNode \<Rightarrow> LockQueueNode" where
  "grant b = b\<lparr>granted := True, finalized := True\<rparr>"

definition grant_block :: "block_ref \<Rightarrow> LockSystem \<Rightarrow> LockSystem" where
  "grant_block r s =
     (case get_block s r of
        None \<Rightarrow> s
      | Some b \<Rightarrow> put_block r (Some (grant b)) s)"

definition hand_off :: "nat \<Rightarrow> LockSystem \<Rightarrow> LockSystem" where
  "hand_off j s =
     (case lock_queue s j of
        [] \<Rightarrow> s
      | r # rs \<Rightarrow>
          if is_writer_block s r then grant_block r s
          else (let run = takeWhile (is_reader_block s) (r # rs)
                in set_lock j (r # rs) (nreaders s j + length run)
                     (fold grant_block run s)))"

text \<open>
  Modelled from the spec: a released node leaves the queue and its slot returns to the
  pool of its thread; a granted reader that leaves decrements the active-reader count.
\<close>

definition dequeue :: "nat \<Rightarrow> block_ref \<Rightarrow> LockSystem \<Rightarrow> LockSystem" where
  "dequeue j r s =
     set_lock j (remove1 r (lock_queue s j))
       (if holds s r Reader then nreaders s j - 1 else nreaders s j)
       (free_block r s)"

text \<open>
  Modelled from the spec: the checked precondition of a release, which is also what it
  means that thread \<open>t\<close> holds record \<open>j\<close> in mode \<open>m\<close> through handle \<open>h\<close>. The
  handle must be a block of the caller that is on this lock and granted in the mode
  released; anything else (the sentinel, a handle that is not granted, a second release)
  is protocol misuse.
\<close>

definition held_by ::
    "LockSystem \<Rightarrow> nat \<Rightarrow> ThreadId \<Rightarrow> McsBlockIndex \<Rightarrow> lock_mode \<Rightarrow> bool" where
  "held_by s j t h m = (h \<noteq> 0 \<and> (t, h) \<in> set (lock_queue s j) \<and> holds s (t, h) m)"

text \<open>
  Modelled from the spec: \<open>release_writer\<close> (\<open>mcs_release_writer_lock\<close> in the test)
  clears the write-held state and hands off to the queue, which leaves the lock free when
  nobody is queued.
\<close>

definition mcs_release_writer_lock ::
    "ThreadId \<Rightarrow> nat \<Rightarrow> McsBlockIndex \<Rightarrow> LockSystem \<Rightarrow> error + LockSystem" where
  "mcs_release_writer_lock t j h s =
     (if \<not> held_by s j t h Writer then Inl ProtocolMisuse
      else Inr (hand_off j (dequeue j (t, h) s)))"

text \<open>
  Modelled from the spec: \<open>release_reader\<close> (\<open>mcs_release_reader_lock\<close> in the test)
  decrements the active-reader count; only the reader that sees the count reach zero hands
  off.
\<close>

definition mcs_release_reader_lock ::
    "ThreadId \<Rightarrow> nat \<Rightarrow> McsBlockIndex \<Rightarrow> LockSystem \<Rightarrow> error + LockSystem" where
  "mcs_release_reader_lock t j h s =
     (if \<not> held_by s j t h Reader then Inl ProtocolMisuse
      else (let s1 = dequeue j (t, h) s
            in Inr (if nreaders s1 j = 0 then hand_off j s1 else s1)))"

subsection \<open>Histories of calls\<close>

text \<open>
  The calls the worker threads make on the records, in the order in which they take
  effect. \<open>run\<close> performs a history and stops at the first hard failure.
\<close>

datatype action =
    TryAcquireReader ThreadId nat
  | TryAcquireWriter ThreadId nat
  | AcquireReader ThreadId nat
  | AcquireWriter ThreadId nat
  | ReleaseReader ThreadId nat McsBlockIndex
  | ReleaseWriter ThreadId nat McsBlockIndex

fun perform :: "action \<Rightarrow> LockSystem \<Rightarrow> error + LockSystem" where
  "perform (TryAcquireReader t j) s = map_sum id snd (mcs_try_acquire_reader_lock t j s)"
| "perform (TryAcquireWriter t j) s = map_sum id snd (mcs_try_acquire_writer_lock t j s)"
| "perform (AcquireReader t j) s = map_sum id snd (mcs_acquire_enqueue Reader t j s)"
| "perform (AcquireWriter t j) s = map_sum id snd (mcs_acquire_enqueue Writer t j s)"
| "perform (ReleaseReader t j h) s = mcs_release_reader_lock t j h s"
| "perform (ReleaseWriter t j h) s = mcs_release_writer_lock t j h s"

fun run :: "action list \<Rightarrow> LockSystem \<Rightarrow> error + LockSystem" where
  "run [] s = Inr s"
| "run (a # as) s = (case perform a s of Inl e \<Rightarrow> Inl e | Inr s' \<Rightarrow> run as s')"

subsection \<open>The invariant of the locks\<close>







subsection \<open>States of the test and of a thread with a full pool\<close>

text \<open>
  \<open>stale_keys\<close> are records with stale content, as \<open>keys[i]\<close> may be before
  \<open>init()\<close>. \<open>reader_held\<close> is the state of the NoConflict test after thread 0 has
  taken a reader lock on record 0, \<open>writer_held\<close> the state after thread 1 has taken a
  writer lock on record 1, with pools of four slots.

  In \<open>pool_full_busy\<close> the pools have two slots, one of them the sentinel: thread 0
  holds a reader lock on record 1, which fills its pool, and thread 1 holds a writer lock
  on record 0. \<open>pool_full_free\<close> is the state after thread 1 has released.
\<close>

definition some_key :: RwLockableXctId where
  "some_key = \<lparr>key_lock = \<lparr>queue = [(3, 2)], readers_count = 7\<rparr>,
               xct_id = \<lparr>epoch = 5, ordinal = 9, valid_flag = True, deleted_flag = True,
                          moved_flag = True\<rparr>\<rparr>"

definition stale_keys :: "nat \<Rightarrow> RwLockableXctId" where
  "stale_keys j = some_key"

definition reader_block :: LockQueueNode where
  "reader_block = \<lparr>granted = True, finalized = True, mode = Reader\<rparr>"

definition writer_block :: LockQueueNode where
  "writer_block = \<lparr>granted = True, finalized = True, mode = Writer\<rparr>"

definition reader_held :: LockSystem where
  "reader_held =
     \<lparr>pools = (\<lambda>t. replicate 4 None)(0 := [None, Some reader_block, None, None]),
      keys = (\<lambda>j. reset some_key)
               (0 := (reset some_key)\<lparr>key_lock := \<lparr>queue = [(0, 1)], readers_count = 1\<rparr>\<rparr>)\<rparr>"

definition writer_held :: LockSystem where
  "writer_held =
     \<lparr>pools = (\<lambda>t. replicate 4 None)(1 := [None, Some writer_block, None, None]),
      keys = (\<lambda>j. reset some_key)
               (1 := (reset some_key)\<lparr>key_lock := \<lparr>queue = [(1, 1)], readers_count = 0\<rparr>\<rparr>)\<rparr>"



section \<open>Theorems\<close>

subsection \<open>SequentialPartitioner\<close>

text \<open>
  C9. \<open>SequentialPartitioner::is_partitionable()\<close> returns true for every instance, and
  \<open>get_required_sort_buffer_size(log_count)\<close> returns 0 for every \<open>log_count\<close>: the
  sequential partitioner never requires a sort buffer.
\<close>

theorem sequential_partitioner_no_sort_buffer:
  "is_partitionable p \<and> get_required_sort_buffer_size p log_count = 0"
  by (simp add: is_partitionable_def get_required_sort_buffer_size_def)

subsection \<open>EngineMemory\<close>

lemma unat_narrow_exact:
  fixes x :: "64 word" and bound :: "'w::len word"
  assumes "unat x \<le> unat bound"
  shows "unat (ucast x :: 'w word) = unat x"
proof -
  have "unat bound < 2 ^ LENGTH('w)"
    by (rule unsigned_less)
  with assms have "unat x < 2 ^ LENGTH('w)"
    by (rule le_less_trans)
  then show ?thesis
    by (simp add: unsigned_ucast_eq take_bit_nat_eq_self)
qed

text \<open>
  Outside the asserted condition the two builds differ: with an 8-bit
  \<open>ThreadGroupId\<close> and 256 node memories the debug build aborts and the release build
  returns 0.
\<close>

lemma get_node_memory_count_beyond_max:
  "get_node_memory_count False (255 :: 8 word)
      \<lparr>engine = 0, node_memories = replicate 256 0\<rparr> = Inl AssertionFailed"
  "get_node_memory_count True (255 :: 8 word)
      \<lparr>engine = 0, node_memories = replicate 256 0\<rparr> = Inr 0"
  by (simp_all add: get_node_memory_count_def vector_size_def)

text \<open>
  C10. For every EngineMemory with \<open>node_memories_.size() <= MAX_THREAD_GROUP_ID\<close>,
  the condition of the \<open>ASSERT_ND\<close>, \<open>get_node_memory_count()\<close> returns a
  \<open>ThreadGroupId\<close> whose value is exactly \<open>node_memories_.size()\<close>: the assertion
  does not fail (in either build) and the narrowing cast loses nothing.
\<close>

theorem get_node_memory_count_exact:
  fixes MAX_THREAD_GROUP_ID :: "'w::len word"
  assumes "unat (vector_size (node_memories m)) \<le> unat MAX_THREAD_GROUP_ID"
  shows "\<exists>g. get_node_memory_count ndebug MAX_THREAD_GROUP_ID m = Inr g
           \<and> unat g = unat (vector_size (node_memories m))"
  using assms unat_narrow_exact [OF assms]
  by (simp add: get_node_memory_count_def)

theorem get_node_memory_count_exact_witness:
  "unat (vector_size (node_memories \<lparr>engine = 0, node_memories = [4096, 8192]\<rparr>))
      \<le> unat (255 :: 8 word)
   \<and> (\<exists>g. get_node_memory_count False (255 :: 8 word)
             \<lparr>engine = 0, node_memories = [4096, 8192]\<rparr> = Inr g
          \<and> unat g = unat (vector_size (node_memories \<lparr>engine = 0, node_memories = [4096, 8192]\<rparr>)))"
proof -
  have h: "unat (vector_size (node_memories \<lparr>engine = 0, node_memories = [4096, 8192]\<rparr>))
      \<le> unat (255 :: 8 word)"
    by (simp add: vector_size_def)
  from get_node_memory_count_exact [OF h, of False] h show ?thesis
    by blast
qed

subsection \<open>Slots and blocks\<close>

lemma acquire_slot_Some:
  assumes "acquire_slot p = Some i"
  shows "0 < i \<and> i < length p \<and> p ! i = None"
  using assms unfolding acquire_slot_def
  by (auto simp: find_Some_iff)

lemma get_block_put_block:
  "get_block (put_block r v s) r' =
     (if r' = r then (if snd r < length (pools s (fst r)) then v else None) else get_block s r')"
  by (cases r; cases r') (auto simp: get_block_def put_block_def nth_list_update)

lemma free_block_eq: "free_block r s = put_block r None s"
  by (simp add: free_block_def put_block_def release_slot_def)


lemma get_block_set_lock [simp]: "get_block (set_lock j q n s) r = get_block s r"
  by (simp add: get_block_def set_lock_def)

lemma lock_queue_set_lock [simp]:
  "lock_queue (set_lock j q n s) j' = (if j' = j then q else lock_queue s j')"
  by (simp add: lock_queue_def set_lock_def)

lemma nreaders_set_lock [simp]:
  "nreaders (set_lock j q n s) j' = (if j' = j then n else nreaders s j')"
  by (simp add: set_lock_def nreaders_def)

lemma xct_id_set_lock [simp]: "xct_id (keys (set_lock j q n s) j') = xct_id (keys s j')"
  by (simp add: set_lock_def)

lemma pools_set_lock [simp]: "pools (set_lock j q n s) = pools s"
  by (simp add: set_lock_def)

lemma keys_put_block [simp]: "keys (put_block r v s) = keys s"
  by (simp add: put_block_def)

lemma lock_queue_put_block [simp]: "lock_queue (put_block r v s) j = lock_queue s j"
  by (simp add: lock_queue_def)

lemma nreaders_put_block [simp]: "nreaders (put_block r v s) j = nreaders s j"
  by (simp add: nreaders_def)

lemma length_pools_put_block [simp]:
  "length (pools (put_block r v s) t) = length (pools s t)"
  by (simp add: put_block_def)

lemma holds_set_lock [simp]: "holds (set_lock j q n s) r m = holds s r m"
  by (simp add: holds_def)

lemma is_writer_block_set_lock [simp]:
  "is_writer_block (set_lock j q n s) r = is_writer_block s r"
  by (simp add: is_writer_block_def)

lemma is_reader_block_set_lock [simp]:
  "is_reader_block (set_lock j q n s) r = is_reader_block s r"
  by (simp add: is_reader_block_def)



lemma tail_None_iff [simp]: "tail (key_lock (keys s j)) = None \<longleftrightarrow> lock_queue s j = []"
  by (simp add: tail_def lock_queue_def)

subsection \<open>What a step on one key leaves alone\<close>


subsection \<open>The parts of the invariant\<close>















subsection \<open>Appending a request\<close>






subsection \<open>Granting blocks\<close>


lemma keys_grant_block [simp]: "keys (grant_block x s) = keys s"
  by (simp add: grant_block_def split: option.splits)

lemma length_pools_grant_block [simp]:
  "length (pools (grant_block x s) t) = length (pools s t)"
  by (simp add: grant_block_def split: option.splits)

lemma grant_idem [simp]: "grant (grant b) = grant b"
  by (simp add: grant_def)


lemma keys_fold_grant [simp]: "keys (fold grant_block xs s) = keys s"
  by (induction xs arbitrary: s) simp_all

lemma length_pools_fold_grant [simp]:
  "length (pools (fold grant_block xs s) t) = length (pools s t)"
  by (induction xs arbitrary: s) simp_all



subsection \<open>Releasing a request\<close>








subsection \<open>The hand-off\<close>






subsection \<open>Every call keeps the invariant\<close>









subsection \<open>The lock functions never touch a VersionedRecordId\<close>

lemma xct_id_enqueue [simp]: "xct_id (keys (enqueue j r b s) j') = xct_id (keys s j')"
  by (simp add: enqueue_def)

lemma xct_id_dequeue [simp]: "xct_id (keys (dequeue j r s) j') = xct_id (keys s j')"
  by (simp add: dequeue_def free_block_eq)

lemma xct_id_hand_off [simp]: "xct_id (keys (hand_off j s) j') = xct_id (keys s j')"
  by (simp add: hand_off_def Let_def split: list.splits)



subsection \<open>The states of the test, replayed\<close>

text \<open>
  In NoConflict thread \<open>id\<close> works on \<open>keys[id]\<close>: thread 0, with an even id, takes
  a reader lock on record 0, and thread 1 a writer lock on record 1. Each try returns
  handle 1. The last lemma runs the history that fills the pool of thread 0.
\<close>

lemma replicate_4: "replicate 4 x = [x, x, x, x]"
  by (simp add: eval_nat_numeral)


lemma acquire_slot_4: "acquire_slot [None, None, None, None] = Some 1"
  by (simp add: acquire_slot_def upt_rec)


lemma no_conflict_task_reader:
  "mcs_try_acquire_reader_lock 0 0 (initial 4 stale_keys) = Inr (1, reader_held)"
  by (simp add: mcs_try_acquire_reader_lock_def initial_def stale_keys_def
      lock_queue_def replicate_4 acquire_slot_4 enqueue_def set_lock_def put_block_def
      nreaders_def reader_held_def reader_block_def reset_def)

lemma no_conflict_task_writer:
  "mcs_try_acquire_writer_lock 1 1 (initial 4 stale_keys) = Inr (1, writer_held)"
  by (simp add: mcs_try_acquire_writer_lock_def initial_def stale_keys_def tail_def
      lock_queue_def replicate_4 acquire_slot_4 enqueue_def set_lock_def put_block_def
      nreaders_def writer_held_def writer_block_def reset_def)







lemma enqueue_granted:
  assumes "acquire_slot (pools s t) = Some h"
  shows "get_block (enqueue j (t, h) b s) (t, h) = Some b"
    and "(t, h) \<in> set (lock_queue (enqueue j (t, h) b s) j)"
    and "h \<noteq> 0"
  using acquire_slot_Some [OF assms]
  by (simp_all add: enqueue_def get_block_put_block)

subsection \<open>A handle returned by a try\<close>

lemma try_reader_success:
  assumes "mcs_try_acquire_reader_lock t j s = Inr (h, s')" "h \<noteq> 0"
  shows "get_block s' (t, h) = Some \<lparr>granted = True, finalized = True, mode = Reader\<rparr>"
    and "(t, h) \<in> set (lock_queue s' j)"
  using assms
  by (auto simp: mcs_try_acquire_reader_lock_def split: if_splits option.splits
           dest: enqueue_granted)

lemma try_writer_success:
  assumes "mcs_try_acquire_writer_lock t j s = Inr (h, s')" "h \<noteq> 0"
  shows "get_block s' (t, h) = Some \<lparr>granted = True, finalized = True, mode = Writer\<rparr>"
    and "(t, h) \<in> set (lock_queue s' j)"
  using assms
  by (auto simp: mcs_try_acquire_writer_lock_def split: if_splits option.splits
           dest: enqueue_granted)

text \<open>
  C3. For every successful try-acquire call, of a reader or of a writer, on any record and
  in any state: the block of the returned non-zero handle is granted and finalized, and of
  the mode asked for, when the call returns, so the caller has nothing to wait for; the
  caller holds the record through the handle; and the release of the handle goes through
  at once.
\<close>

theorem try_success_settled:
  "(mcs_try_acquire_reader_lock t j s = Inr (h, s') \<and> h \<noteq> 0 \<longrightarrow>
      (\<exists>b. get_block s' (t, h) = Some b \<and> is_granted b \<and> is_finalized b \<and> mode b = Reader)
      \<and> held_by s' j t h Reader
      \<and> (\<exists>s''. mcs_release_reader_lock t j h s' = Inr s''))
   \<and> (mcs_try_acquire_writer_lock t j s = Inr (h, s') \<and> h \<noteq> 0 \<longrightarrow>
      (\<exists>b. get_block s' (t, h) = Some b \<and> is_granted b \<and> is_finalized b \<and> mode b = Writer)
      \<and> held_by s' j t h Writer
      \<and> (\<exists>s''. mcs_release_writer_lock t j h s' = Inr s''))"
proof (intro conjI impI)
  assume a: "mcs_try_acquire_reader_lock t j s = Inr (h, s') \<and> h \<noteq> 0"
  then have call: "mcs_try_acquire_reader_lock t j s = Inr (h, s')" and nz: "h \<noteq> 0"
    by simp_all
  note b = try_reader_success(1) [OF call nz] and q = try_reader_success(2) [OF call nz]
  from b show "\<exists>b. get_block s' (t, h) = Some b \<and> is_granted b \<and> is_finalized b \<and> mode b = Reader"
    by (simp add: is_granted_def is_finalized_def)
  from nz b q show held: "held_by s' j t h Reader"
    by (simp add: held_by_def holds_def)
  then show "\<exists>s''. mcs_release_reader_lock t j h s' = Inr s''"
    by (simp add: mcs_release_reader_lock_def Let_def)
next
  assume a: "mcs_try_acquire_writer_lock t j s = Inr (h, s') \<and> h \<noteq> 0"
  then have call: "mcs_try_acquire_writer_lock t j s = Inr (h, s')" and nz: "h \<noteq> 0"
    by simp_all
  note b = try_writer_success(1) [OF call nz] and q = try_writer_success(2) [OF call nz]
  from b show "\<exists>b. get_block s' (t, h) = Some b \<and> is_granted b \<and> is_finalized b \<and> mode b = Writer"
    by (simp add: is_granted_def is_finalized_def)
  from nz b q show held: "held_by s' j t h Writer"
    by (simp add: held_by_def holds_def)
  then show "\<exists>s''. mcs_release_writer_lock t j h s' = Inr s''"
    by (simp add: mcs_release_writer_lock_def)
qed

theorem try_success_settled_witness:
  "mcs_try_acquire_reader_lock 0 0 (initial 4 stale_keys) = Inr (1, reader_held)
   \<and> (1 :: nat) \<noteq> 0
   \<and> (\<exists>b. get_block reader_held (0, 1) = Some b \<and> is_granted b \<and> is_finalized b
          \<and> mode b = Reader)
   \<and> held_by reader_held 0 0 1 Reader
   \<and> (\<exists>s''. mcs_release_reader_lock 0 0 1 reader_held = Inr s'')
   \<and> mcs_try_acquire_writer_lock 1 1 (initial 4 stale_keys) = Inr (1, writer_held)
   \<and> (\<exists>b. get_block writer_held (1, 1) = Some b \<and> is_granted b \<and> is_finalized b
          \<and> mode b = Writer)
   \<and> held_by writer_held 1 1 1 Writer
   \<and> (\<exists>s''. mcs_release_writer_lock 1 1 1 writer_held = Inr s'')"
  using try_success_settled [of 0 0 "initial 4 stale_keys" 1 reader_held]
    try_success_settled [of 1 1 "initial 4 stale_keys" 1 writer_held]
    no_conflict_task_reader no_conflict_task_writer
  by simp

subsection \<open>Release restores freedom\<close>

lemma lock_queue_hand_off [simp]: "lock_queue (hand_off j s) j' = lock_queue s j'"
  by (simp add: hand_off_def Let_def split: list.splits) (simp add: lock_queue_def)









end
